theory Spec2Isabelle
  imports Main "HOL-Library.Word"
begin

section \<open>Industrial computer BIOS boot logic (bios_boot.c)\<close>

subsection \<open>Configuration constants\<close>

text \<open>
  The temperature macros are C \<open>int\<close> constants; the temperature fields are
  \<open>uint16_t\<close> and are promoted to \<open>int\<close> (value preserving) before a comparison,
  so the comparisons below are on \<open>uint\<close> of the field.
\<close>

definition TEMP_NORMAL_MAX :: int where
  "TEMP_NORMAL_MAX = 85"

definition TEMP_HIGH_MAX :: int where
  "TEMP_HIGH_MAX = 300"

definition TEMP_CRITICAL :: int where
  "TEMP_CRITICAL = 140"

definition BOOT_RETRY_MAX :: int where
  "BOOT_RETRY_MAX = 3"

text \<open>Boot status codes, returned as \<open>uint8_t\<close>.\<close>

definition BOOT_OK :: "8 word" where
  "BOOT_OK = 0"

definition BOOT_TEMP_WARNING :: "8 word" where
  "BOOT_TEMP_WARNING = 1"

definition BOOT_TEMP_CRITICAL :: "8 word" where
  "BOOT_TEMP_CRITICAL = 2"

definition BOOT_FAILED :: "8 word" where
  "BOOT_FAILED = 3"

subsection \<open>Global state and console output\<close>

text \<open>
  \<open>SystemState\<close> is the struct of the source; the single global \<open>g_state\<close> is passed
  into every function and returned updated.
\<close>

record SystemState =
  cpu_temp :: "16 word"
  board_temp :: "16 word"
  boot_count :: "8 word"
  high_temp_mode :: bool

text \<open>
  What a call writes to standard output, one item per \<open>printf\<close>: a fixed text (line
  breaks left out), the temperature line of \<open>check_thermal_conditions\<close> with its two
  numbers, and the attempt line of \<open>bios_boot_sequence\<close> with its number.
\<close>

datatype printed =
  Printf string
  | PrintfTemps "16 word" "16 word"
  | PrintfAttempt "8 word"

definition log_boot :: "string \<Rightarrow> printed" where
  "log_boot msg = Printf (''[BOOT LOG] '' @ msg)"

definition log_error :: "string \<Rightarrow> printed" where
  "log_error msg = Printf (''[ERROR] '' @ msg)"

text \<open>
  The temperature line is the first thing \<open>check_thermal_conditions\<close> prints and
  nothing else prints it, so it marks a call of the thermal check in an output.
\<close>

fun is_temp_line :: "printed \<Rightarrow> bool" where
  "is_temp_line (PrintfTemps c b) = True"
| "is_temp_line (Printf t) = False"
| "is_temp_line (PrintfAttempt n) = False"

definition thermal_invoked :: "printed list \<Rightarrow> bool" where
  "thermal_invoked out = list_ex is_temp_line out"

subsection \<open>Temperature reads (hardware simulation)\<close>

definition read_cpu_temperature :: "SystemState \<Rightarrow> 16 word" where
  "read_cpu_temperature s = cpu_temp s"

definition read_board_temperature :: "SystemState \<Rightarrow> 16 word" where
  "read_board_temperature s = board_temp s"

subsection \<open>Thermal check\<close>

text \<open>
  Returns the status, the state and the output of the call. Only the CPU temperature is
  compared, strictly, against \<open>TEMP_NORMAL_MAX\<close>.
\<close>

definition check_thermal_conditions :: "SystemState \<Rightarrow> 8 word \<times> SystemState \<times> printed list" where
  "check_thermal_conditions s =
     (let s1 = s\<lparr>cpu_temp := read_cpu_temperature s\<rparr>;
          s2 = s1\<lparr>board_temp := read_board_temperature s1\<rparr>;
          out = [PrintfTemps (cpu_temp s2) (board_temp s2)]
      in if uint (cpu_temp s2) > TEMP_NORMAL_MAX
         then (BOOT_TEMP_CRITICAL, s2, out @ [log_error ''Temperature too high for boot!''])
         else (BOOT_OK, s2, out))"

subsection \<open>Power check\<close>

text \<open>
  The body of \<open>check_power_stability\<close> with the value of its local \<open>power_ok\<close> as an
  argument (the source notes that it stands for the voltage and current sensors), so that
  both branches of the body are modelled. The source initialises the local to \<open>true\<close>.
\<close>

definition check_power_stability_body :: "bool \<Rightarrow> bool \<times> printed list" where
  "check_power_stability_body power_ok =
     (let out = [log_boot ''Checking power supply stability...'']
      in if power_ok
         then (True, out @ [log_boot ''Power supply: STABLE''])
         else (False, out @ [log_error ''Power supply unstable!'']))"

definition check_power_stability :: "bool \<times> printed list" where
  "check_power_stability = (let power_ok = True in check_power_stability_body power_ok)"

subsection \<open>Main boot sequence\<close>

definition boot_banner :: "8 word \<Rightarrow> printed list" where
  "boot_banner n =
     [Printf ''========================================'',
      Printf ''BIOS Boot Sequence v1.0.0'',
      Printf ''Hardware: Mainboard v2.1'',
      PrintfAttempt n,
      Printf ''========================================'']"

text \<open>
  The body of \<open>bios_boot_sequence\<close> with the result of its call of the power check as
  the argument \<open>gate\<close>; \<open>bios_boot_sequence\<close> itself calls \<open>check_power_stability\<close>.
\<close>

definition bios_boot_sequence_with ::
  "bool \<times> printed list \<Rightarrow> SystemState \<Rightarrow> 8 word \<times> SystemState \<times> printed list" where
  "bios_boot_sequence_with gate s =
     (let s1 = s\<lparr>boot_count := boot_count s + 1\<rparr>;
          out0 = boot_banner (boot_count s1) @ [log_boot ''Step 1: Power check''];
          (power_ok, out1) = gate
      in if \<not> power_ok
         then (BOOT_FAILED, s1, out0 @ out1)
         else
           (let (thermal_status, s2, out2) = check_thermal_conditions s1;
                out3 = out0 @ out1 @ [log_boot ''Step 2: Thermal check''] @ out2
            in if thermal_status = BOOT_TEMP_CRITICAL
               then (BOOT_TEMP_CRITICAL, s2,
                     out3 @ [log_error ''Boot aborted due to thermal conditions''])
               else (BOOT_OK, s2,
                     out3 @ [log_boot ''Step 3: Hardware initialization'',
                             log_boot ''Initializing CPU...'',
                             log_boot ''Initializing Memory...'',
                             log_boot ''Initializing I/O...'',
                             log_boot ''Step 4: Boot complete'',
                             Printf ''[SUCCESS] System boot completed!''])))"

definition bios_boot_sequence :: "SystemState \<Rightarrow> 8 word \<times> SystemState \<times> printed list" where
  "bios_boot_sequence s = bios_boot_sequence_with check_power_stability s"

text \<open>Reading the three parts of a result.\<close>

definition status_of :: "8 word \<times> SystemState \<times> printed list \<Rightarrow> 8 word" where
  "status_of r = fst r"

definition state_of :: "8 word \<times> SystemState \<times> printed list \<Rightarrow> SystemState" where
  "state_of r = fst (snd r)"

definition output_of :: "8 word \<times> SystemState \<times> printed list \<Rightarrow> printed list" where
  "output_of r = snd (snd r)"

text \<open>
  A session: \<open>n\<close> calls of \<open>bios_boot_sequence\<close> one after the other on the same
  global state, as \<open>main\<close> calls it twice.
\<close>

fun boot_session :: "nat \<Rightarrow> SystemState \<Rightarrow> SystemState" where
  "boot_session 0 s = s"
| "boot_session (Suc n) s = boot_session n (state_of (bios_boot_sequence s))"

text \<open>The initial value of the global: \<open>static SystemState g_state = {0}\<close>.\<close>

definition g_state_init :: SystemState where
  "g_state_init = \<lparr>cpu_temp = 0, board_temp = 0, boot_count = 0, high_temp_mode = False\<rparr>"

text \<open>
  The states the global can be in: it starts as \<open>g_state_init\<close>; \<open>main\<close> stores
  temperatures into \<open>cpu_temp\<close> and \<open>board_temp\<close> (they stand for the sensors) and
  stores 0 into \<open>boot_count\<close>; and the thermal check and the boot sequence are called.
  Nothing else writes the (static) global.
\<close>

inductive reachable :: "SystemState \<Rightarrow> bool" where
  init: "reachable g_state_init"
| set_temps: "reachable s \<Longrightarrow> reachable (s\<lparr>cpu_temp := c, board_temp := b\<rparr>)"
| reset_count: "reachable s \<Longrightarrow> reachable (s\<lparr>boot_count := 0\<rparr>)"
| thermal: "reachable s \<Longrightarrow> reachable (state_of (check_thermal_conditions s))"
| boot: "reachable s \<Longrightarrow> reachable (state_of (bios_boot_sequence s))"

section \<open>Basic facts\<close>

lemma check_thermal_status:
  "status_of (check_thermal_conditions s) =
     (if uint (cpu_temp s) > TEMP_NORMAL_MAX then BOOT_TEMP_CRITICAL else BOOT_OK)"
  by (simp add: check_thermal_conditions_def status_of_def Let_def
      read_cpu_temperature_def read_board_temperature_def)

lemma check_thermal_state:
  "state_of (check_thermal_conditions s) = s"
  by (simp add: check_thermal_conditions_def state_of_def Let_def
      read_cpu_temperature_def read_board_temperature_def)

lemma check_thermal_output:
  "output_of (check_thermal_conditions s) =
     (if uint (cpu_temp s) > TEMP_NORMAL_MAX
      then [PrintfTemps (cpu_temp s) (board_temp s), log_error ''Temperature too high for boot!'']
      else [PrintfTemps (cpu_temp s) (board_temp s)])"
  by (simp add: check_thermal_conditions_def output_of_def Let_def
      read_cpu_temperature_def read_board_temperature_def)

lemma check_power_stability_value:
  "check_power_stability =
     (True, [log_boot ''Checking power supply stability...'', log_boot ''Power supply: STABLE''])"
  by (simp add: check_power_stability_def check_power_stability_body_def)

lemma boot_with_status:
  "status_of (bios_boot_sequence_with gate s) =
     (if \<not> fst gate then BOOT_FAILED
      else if uint (cpu_temp s) > TEMP_NORMAL_MAX then BOOT_TEMP_CRITICAL else BOOT_OK)"
  by (simp add: bios_boot_sequence_with_def status_of_def Let_def check_thermal_conditions_def
      read_cpu_temperature_def read_board_temperature_def split: prod.splits)

lemma boot_with_state:
  "state_of (bios_boot_sequence_with gate s) = s\<lparr>boot_count := boot_count s + 1\<rparr>"
  by (simp add: bios_boot_sequence_with_def state_of_def Let_def check_thermal_conditions_def
      read_cpu_temperature_def read_board_temperature_def split: prod.splits)

lemma boot_status:
  "status_of (bios_boot_sequence s) =
     (if uint (cpu_temp s) > TEMP_NORMAL_MAX then BOOT_TEMP_CRITICAL else BOOT_OK)"
  by (simp add: bios_boot_sequence_def boot_with_status check_power_stability_value)

lemma boot_state:
  "state_of (bios_boot_sequence s) = s\<lparr>boot_count := boot_count s + 1\<rparr>"
  by (simp add: bios_boot_sequence_def boot_with_state)

lemma status_codes_distinct:
  "BOOT_OK \<noteq> BOOT_TEMP_WARNING" "BOOT_OK \<noteq> BOOT_TEMP_CRITICAL" "BOOT_OK \<noteq> BOOT_FAILED"
  "BOOT_TEMP_WARNING \<noteq> BOOT_TEMP_CRITICAL" "BOOT_TEMP_WARNING \<noteq> BOOT_FAILED"
  "BOOT_TEMP_CRITICAL \<noteq> BOOT_FAILED"
  by (simp_all add: BOOT_OK_def BOOT_TEMP_WARNING_def BOOT_TEMP_CRITICAL_def BOOT_FAILED_def)

lemma boot_session_state:
  "boot_session n s = s\<lparr>boot_count := boot_count s + of_nat n\<rparr>"
proof (induction n arbitrary: s)
  case 0
  show ?case by simp
next
  case (Suc n)
  show ?case by (simp add: Suc boot_state add.assoc add.commute)
qed

lemma unat_incr8: "unat ((x :: 8 word) + 1) = (unat x + 1) mod 256"
  by (simp add: unat_word_ariths)

lemma unat_add_of_nat8: "unat ((x :: 8 word) + of_nat n) = (unat x + n) mod 256"
  by (simp add: unat_word_ariths unat_of_nat mod_add_right_eq)

lemma unat8_bound: "unat (x :: 8 word) < 256"
  using unsigned_less [of x, where 'a = nat] by simp

lemma reachable_mode_off:
  "reachable s \<Longrightarrow> \<not> high_temp_mode s"
proof (induction rule: reachable.induct)
  case init
  show ?case by (simp add: g_state_init_def)
next
  case (set_temps s c b)
  then show ?case by simp
next
  case (reset_count s)
  then show ?case by simp
next
  case (thermal s)
  then show ?case by (simp add: check_thermal_state)
next
  case (boot s)
  then show ?case by (simp add: boot_state)
qed

lemma reachable_boot_session:
  "reachable s \<Longrightarrow> reachable (boot_session n s)"
proof (induction n arbitrary: s)
  case 0
  then show ?case by simp
next
  case (Suc n)
  have "reachable (state_of (bios_boot_sequence s))"
    using Suc.prems by (rule reachable.boot)
  then show ?case by (simp add: Suc.IH)
qed

lemma mode_off_reachable:
  assumes "\<not> high_temp_mode s"
  shows "reachable s"
proof -
  let ?t = "g_state_init\<lparr>cpu_temp := cpu_temp s, board_temp := board_temp s\<rparr>"
  have "reachable ?t"
    by (rule reachable.set_temps [OF reachable.init])
  then have "reachable (boot_session (unat (boot_count s)) ?t)"
    by (rule reachable_boot_session)
  moreover have "boot_session (unat (boot_count s)) ?t = s"
    using assms by (simp add: boot_session_state g_state_init_def)
  ultimately show ?thesis by simp
qed

lemma reachable_iff_mode_off:
  "reachable s = (\<not> high_temp_mode s)"
  using reachable_mode_off mode_off_reachable by blast

section \<open>The thermal check\<close>

text \<open>
  C1 (as amended). A CPU temperature at or above the critical temperature (140) makes the
  thermal check return \<open>BOOT_TEMP_CRITICAL\<close> and the boot sequence abort with
  \<open>BOOT_TEMP_CRITICAL\<close>, whatever the board temperature, the attempt count and the
  stored mode are. The board temperature is not part of the condition.
\<close>

theorem C1_cpu_critical_aborts:
  "TEMP_CRITICAL \<le> uint c \<Longrightarrow>
     status_of (check_thermal_conditions
       \<lparr>cpu_temp = c, board_temp = b, boot_count = n, high_temp_mode = m\<rparr>) = BOOT_TEMP_CRITICAL
     \<and> status_of (bios_boot_sequence
       \<lparr>cpu_temp = c, board_temp = b, boot_count = n, high_temp_mode = m\<rparr>) = BOOT_TEMP_CRITICAL"
  by (simp add: check_thermal_status boot_status TEMP_CRITICAL_def TEMP_NORMAL_MAX_def)

theorem C1_cpu_critical_aborts_witness:
  "TEMP_CRITICAL \<le> uint (145 :: 16 word)
   \<and> status_of (check_thermal_conditions
       \<lparr>cpu_temp = 145, board_temp = 20, boot_count = 0, high_temp_mode = True\<rparr>) = BOOT_TEMP_CRITICAL
   \<and> status_of (bios_boot_sequence
       \<lparr>cpu_temp = 145, board_temp = 20, boot_count = 0, high_temp_mode = True\<rparr>) = BOOT_TEMP_CRITICAL"
  using C1_cpu_critical_aborts [of 145 20 0 True] by (simp add: TEMP_CRITICAL_def)

text \<open>
  C1 as written fails: with the board at the critical temperature and a cool CPU the
  thermal check returns \<open>BOOT_OK\<close> and the boot completes.
\<close>

theorem C1_board_critical_counterexample:
  "TEMP_CRITICAL \<le> uint (board_temp
       \<lparr>cpu_temp = 30, board_temp = 140, boot_count = 0, high_temp_mode = False\<rparr>)
   \<and> status_of (check_thermal_conditions
       \<lparr>cpu_temp = 30, board_temp = 140, boot_count = 0, high_temp_mode = False\<rparr>) = BOOT_OK
   \<and> status_of (bios_boot_sequence
       \<lparr>cpu_temp = 30, board_temp = 140, boot_count = 0, high_temp_mode = False\<rparr>) = BOOT_OK
   \<and> BOOT_OK \<noteq> BOOT_TEMP_CRITICAL"
  by (simp add: check_thermal_status boot_status TEMP_CRITICAL_def TEMP_NORMAL_MAX_def
      status_codes_distinct)

text \<open>
  C2. The factory scenario of \<open>main\<close> (CPU 95, board 90, attempt count 0, mode off): the
  thermal check returns \<open>BOOT_TEMP_CRITICAL\<close>, not \<open>BOOT_TEMP_WARNING\<close>, the boot
  sequence aborts with \<open>BOOT_TEMP_CRITICAL\<close>, its output has no success line, and
  \<open>high_temp_mode\<close> stays off.
\<close>

theorem C2_factory_scenario_aborts:
  "status_of (check_thermal_conditions
       \<lparr>cpu_temp = 95, board_temp = 90, boot_count = 0, high_temp_mode = False\<rparr>) = BOOT_TEMP_CRITICAL
   \<and> BOOT_TEMP_CRITICAL \<noteq> BOOT_TEMP_WARNING
   \<and> \<not> high_temp_mode (state_of (check_thermal_conditions
       \<lparr>cpu_temp = 95, board_temp = 90, boot_count = 0, high_temp_mode = False\<rparr>))
   \<and> status_of (bios_boot_sequence
       \<lparr>cpu_temp = 95, board_temp = 90, boot_count = 0, high_temp_mode = False\<rparr>) = BOOT_TEMP_CRITICAL
   \<and> BOOT_TEMP_CRITICAL \<noteq> BOOT_OK
   \<and> \<not> high_temp_mode (state_of (bios_boot_sequence
       \<lparr>cpu_temp = 95, board_temp = 90, boot_count = 0, high_temp_mode = False\<rparr>))
   \<and> Printf ''[SUCCESS] System boot completed!'' \<notin> set (output_of (bios_boot_sequence
       \<lparr>cpu_temp = 95, board_temp = 90, boot_count = 0, high_temp_mode = False\<rparr>))"
proof -
  let ?s = "\<lparr>cpu_temp = 95, board_temp = 90, boot_count = 0, high_temp_mode = False\<rparr>"
  have hot: "TEMP_NORMAL_MAX < uint (cpu_temp ?s)"
    by (simp add: TEMP_NORMAL_MAX_def)
  have st: "status_of (check_thermal_conditions ?s) = BOOT_TEMP_CRITICAL"
    using hot by (simp add: check_thermal_status)
  have bt: "status_of (bios_boot_sequence ?s) = BOOT_TEMP_CRITICAL"
    using hot by (simp add: boot_status)
  have out: "Printf ''[SUCCESS] System boot completed!''
      \<notin> set (output_of (bios_boot_sequence ?s))"
    by (simp add: bios_boot_sequence_def bios_boot_sequence_with_def check_power_stability_value
        check_thermal_conditions_def read_cpu_temperature_def read_board_temperature_def
        output_of_def Let_def TEMP_NORMAL_MAX_def boot_banner_def log_boot_def log_error_def)
  show ?thesis
    using st bt out
    by (simp add: check_thermal_state boot_state status_codes_distinct [symmetric])
qed



text \<open>
  C4 (as amended). The comparison with the normal maximum is strict: the thermal check
  returns \<open>BOOT_OK\<close> exactly when the CPU temperature is at most 85, and
  \<open>BOOT_TEMP_CRITICAL\<close> exactly when it is above 85. A CPU temperature of exactly 85
  is within the normal ceiling; 86 is the first value that aborts.
\<close>

theorem C4_normal_max_strict:
  "(status_of (check_thermal_conditions s) = BOOT_OK) = (uint (cpu_temp s) \<le> TEMP_NORMAL_MAX)
   \<and> (status_of (check_thermal_conditions s) = BOOT_TEMP_CRITICAL)
       = (TEMP_NORMAL_MAX < uint (cpu_temp s))
   \<and> status_of (check_thermal_conditions (s\<lparr>cpu_temp := 86\<rparr>)) = BOOT_TEMP_CRITICAL"
  by (simp add: check_thermal_status status_codes_distinct status_codes_distinct [symmetric]
      TEMP_NORMAL_MAX_def)

text \<open>
  C4 as written fails: at a CPU temperature of exactly 85 the thermal check returns
  \<open>BOOT_OK\<close>.
\<close>

theorem C4_boundary_counterexample:
  "uint (cpu_temp \<lparr>cpu_temp = 85, board_temp = 70, boot_count = 0, high_temp_mode = False\<rparr>)
     = TEMP_NORMAL_MAX
   \<and> status_of (check_thermal_conditions
       \<lparr>cpu_temp = 85, board_temp = 70, boot_count = 0, high_temp_mode = False\<rparr>) = BOOT_OK"
  by (simp add: check_thermal_status TEMP_NORMAL_MAX_def)

text \<open>
  C7. The thermal check is a function of the two temperatures and the stored mode: two
  states that agree on \<open>cpu_temp\<close>, \<open>board_temp\<close> and \<open>high_temp_mode\<close> (the
  attempt counts may differ) get the same status, the same resulting mode and the same
  output; and a second call on the state the first call leaves gives the result of the
  first call again.
\<close>

theorem C7_thermal_deterministic:
  "cpu_temp s1 = cpu_temp s2 \<Longrightarrow> board_temp s1 = board_temp s2 \<Longrightarrow>
   high_temp_mode s1 = high_temp_mode s2 \<Longrightarrow>
     status_of (check_thermal_conditions s1) = status_of (check_thermal_conditions s2)
     \<and> high_temp_mode (state_of (check_thermal_conditions s1))
         = high_temp_mode (state_of (check_thermal_conditions s2))
     \<and> output_of (check_thermal_conditions s1) = output_of (check_thermal_conditions s2)
     \<and> check_thermal_conditions (state_of (check_thermal_conditions s1))
         = check_thermal_conditions s1"
  by (simp add: check_thermal_status check_thermal_state check_thermal_output)

theorem C7_thermal_deterministic_witness:
  "cpu_temp \<lparr>cpu_temp = 95, board_temp = 90, boot_count = 0, high_temp_mode = False\<rparr>
     = cpu_temp \<lparr>cpu_temp = 95, board_temp = 90, boot_count = 7, high_temp_mode = False\<rparr>
   \<and> board_temp \<lparr>cpu_temp = 95, board_temp = 90, boot_count = 0, high_temp_mode = False\<rparr>
     = board_temp \<lparr>cpu_temp = 95, board_temp = 90, boot_count = 7, high_temp_mode = False\<rparr>
   \<and> high_temp_mode \<lparr>cpu_temp = 95, board_temp = 90, boot_count = 0, high_temp_mode = False\<rparr>
     = high_temp_mode \<lparr>cpu_temp = 95, board_temp = 90, boot_count = 7, high_temp_mode = False\<rparr>
   \<and> status_of (check_thermal_conditions
         \<lparr>cpu_temp = 95, board_temp = 90, boot_count = 0, high_temp_mode = False\<rparr>)
     = status_of (check_thermal_conditions
         \<lparr>cpu_temp = 95, board_temp = 90, boot_count = 7, high_temp_mode = False\<rparr>)
   \<and> high_temp_mode (state_of (check_thermal_conditions
         \<lparr>cpu_temp = 95, board_temp = 90, boot_count = 0, high_temp_mode = False\<rparr>))
     = high_temp_mode (state_of (check_thermal_conditions
         \<lparr>cpu_temp = 95, board_temp = 90, boot_count = 7, high_temp_mode = False\<rparr>))"
  using C7_thermal_deterministic
    [of "\<lparr>cpu_temp = 95, board_temp = 90, boot_count = 0, high_temp_mode = False\<rparr>"
        "\<lparr>cpu_temp = 95, board_temp = 90, boot_count = 7, high_temp_mode = False\<rparr>"]
  by simp

text \<open>
  C9. The board temperature has no influence on the disposition: changing only
  \<open>board_temp\<close> of a state changes neither the status of the thermal check nor the
  result of the boot sequence.
\<close>

theorem C9_board_temp_ignored:
  "status_of (check_thermal_conditions (s\<lparr>board_temp := b\<rparr>))
     = status_of (check_thermal_conditions s)
   \<and> status_of (bios_boot_sequence (s\<lparr>board_temp := b\<rparr>))
     = status_of (bios_boot_sequence s)"
  by (simp add: check_thermal_status boot_status)

text \<open>
  C10. No operation writes \<open>high_temp_mode\<close>: after the thermal check, after the boot
  sequence (whatever the power check answered) and after any number of boot attempts the
  field has the value it had before; from the initial global state the hardened mode is
  never entered.
\<close>

theorem C10_high_temp_mode_unchanged:
  "high_temp_mode (state_of (check_thermal_conditions s)) = high_temp_mode s
   \<and> high_temp_mode (state_of (bios_boot_sequence s)) = high_temp_mode s
   \<and> high_temp_mode (state_of (bios_boot_sequence_with gate s)) = high_temp_mode s
   \<and> high_temp_mode (boot_session n s) = high_temp_mode s
   \<and> \<not> high_temp_mode (boot_session n g_state_init)"
  by (simp add: check_thermal_state boot_state boot_with_state boot_session_state
      g_state_init_def)

section \<open>The power check and the boot sequence\<close>

text \<open>
  C8. The power check of the source returns true (its local \<open>power_ok\<close> is the constant
  \<open>true\<close>), so the boot sequence never returns \<open>BOOT_FAILED\<close>: its result is
  \<open>BOOT_OK\<close> or \<open>BOOT_TEMP_CRITICAL\<close>, and its output always has the line of the
  thermal check.
\<close>

theorem C8_power_check_always_true:
  "fst check_power_stability
   \<and> status_of (bios_boot_sequence s) \<noteq> BOOT_FAILED
   \<and> (status_of (bios_boot_sequence s) = BOOT_OK
        \<or> status_of (bios_boot_sequence s) = BOOT_TEMP_CRITICAL)
   \<and> thermal_invoked (output_of (bios_boot_sequence s))"
proof -
  have out: "thermal_invoked (output_of (bios_boot_sequence s))"
    by (simp add: bios_boot_sequence_def bios_boot_sequence_with_def
        check_power_stability_value check_thermal_conditions_def read_cpu_temperature_def
        read_board_temperature_def output_of_def Let_def thermal_invoked_def)
  show ?thesis
    using out by (simp add: check_power_stability_value boot_status status_codes_distinct)
qed

text \<open>
  C6 (as amended). \<open>boot_count\<close> is a \<open>uint8_t\<close>: every call of the boot sequence
  sets it to the old value plus one modulo 256, which is exactly one more when the old
  value is not 255 (from 255 the sum modulo 256 is 0). After \<open>n\<close> calls it is the start value plus
  \<open>n\<close> modulo 256, so it never decreases as long as start value plus the number of
  calls stays at most 255.
\<close>

theorem C6_boot_count_increment:
  "unat (boot_count (state_of (bios_boot_sequence s))) = (unat (boot_count s) + 1) mod 256
   \<and> (boot_count s \<noteq> 255 \<longrightarrow>
        unat (boot_count (state_of (bios_boot_sequence s))) = unat (boot_count s) + 1)
   \<and> unat (boot_count (boot_session n s)) = (unat (boot_count s) + n) mod 256
   \<and> (unat (boot_count s) + n \<le> 255 \<and> k \<le> n \<longrightarrow>
        boot_count (boot_session k s) \<le> boot_count (boot_session n s))"
proof -
  have a: "unat (boot_count (state_of (bios_boot_sequence s))) = (unat (boot_count s) + 1) mod 256"
    by (simp add: boot_state unat_incr8)
  have c: "unat (boot_count (state_of (bios_boot_sequence s))) = unat (boot_count s) + 1"
    if "boot_count s \<noteq> 255"
  proof -
    have "unat (boot_count s) \<noteq> unat (255 :: 8 word)"
      using that by (simp add: word_unat_eq_iff)
    then have "unat (boot_count s) \<noteq> 255" by simp
    moreover have "unat (boot_count s) < 256"
      by (rule unat8_bound)
    ultimately show ?thesis using a by simp
  qed
  have d: "unat (boot_count (boot_session m s)) = (unat (boot_count s) + m) mod 256" for m
    by (simp add: boot_session_state unat_add_of_nat8)
  have e: "boot_count (boot_session k s) \<le> boot_count (boot_session n s)"
    if "unat (boot_count s) + n \<le> 255" "k \<le> n"
    using that by (simp add: word_le_nat_alt d)
  show ?thesis using a c d e by simp
qed

theorem C6_boot_count_increment_witness:
  "boot_count \<lparr>cpu_temp = 75, board_temp = 70, boot_count = 3, high_temp_mode = False\<rparr> \<noteq> 255
   \<and> unat (boot_count (state_of (bios_boot_sequence
         \<lparr>cpu_temp = 75, board_temp = 70, boot_count = 3, high_temp_mode = False\<rparr>))) = 4
   \<and> unat (boot_count \<lparr>cpu_temp = 75, board_temp = 70, boot_count = 3, high_temp_mode = False\<rparr>)
       + 5 \<le> 255
   \<and> (2 :: nat) \<le> 5
   \<and> boot_count (boot_session 2
         \<lparr>cpu_temp = 75, board_temp = 70, boot_count = 3, high_temp_mode = False\<rparr>)
       \<le> boot_count (boot_session 5
         \<lparr>cpu_temp = 75, board_temp = 70, boot_count = 3, high_temp_mode = False\<rparr>)"
  using C6_boot_count_increment
    [of "\<lparr>cpu_temp = 75, board_temp = 70, boot_count = 3, high_temp_mode = False\<rparr>" 5 2]
  by simp

text \<open>
  C6 as written fails: at an attempt count of 255 a call of the boot sequence leaves the
  count at 0, which is not 256 and is below the old value.
\<close>

theorem C6_boot_count_wrap_counterexample:
  "boot_count (state_of (bios_boot_sequence
       \<lparr>cpu_temp = 75, board_temp = 70, boot_count = 255, high_temp_mode = False\<rparr>)) = 0
   \<and> unat (boot_count (state_of (bios_boot_sequence
       \<lparr>cpu_temp = 75, board_temp = 70, boot_count = 255, high_temp_mode = False\<rparr>)))
     \<noteq> unat (boot_count
       \<lparr>cpu_temp = 75, board_temp = 70, boot_count = 255, high_temp_mode = False\<rparr>) + 1
   \<and> boot_count (state_of (bios_boot_sequence
       \<lparr>cpu_temp = 75, board_temp = 70, boot_count = 255, high_temp_mode = False\<rparr>))
     < boot_count \<lparr>cpu_temp = 75, board_temp = 70, boot_count = 255, high_temp_mode = False\<rparr>"
  by (simp add: boot_state)

end
